theory Spec2Isabelle
  imports Main "HOL-Library.AList"
begin

section \<open>glacier\_check: inventories, projection, reconciliation, receipt\<close>

text \<open>
  A shallow embedding of \<^verbatim>\<open>src/glacier_check/glacier_check.py\<close>.

  \<^item> An inventory is the object read from an inventory file: a dictionary whose key
    \<^verbatim>\<open>'ArchiveList'\<close> holds a list of entries; an entry is a dictionary from field
    names to strings, as the schema of the inventory files has them (a JSON value of
    another type in these positions is outside the model). Both are partial maps, so
    a missing key is a value of the model and the \<^verbatim>\<open>KeyError\<close> of a subscript is a
    branch of it.
  \<^item> The dictionary built by \<^verbatim>\<open>dictify_inventory\<close> is an association list with
    distinct keys in insertion order (the iteration order of a Python dictionary);
    storing under a key that is present replaces the value in place.
  \<^item> Exceptions are values: every fallible function returns \<open>py_error + 'a\<close>.
  \<^item> What the module takes from its libraries and from the machine is a parameter:
    the record \<open>world\<close> holds \<^verbatim>\<open>os.path.join\<close>, \<^verbatim>\<open>os.path.abspath\<close>,
    the files that \<^verbatim>\<open>open\<close> finds, \<^verbatim>\<open>json.load\<close>,
    \<^verbatim>\<open>calculate_tree_hash\<close> and the clock. Every call of
    \<^verbatim>\<open>datetime.now()\<close> reads the clock at the current tick and advances the tick,
    which is threaded through the functions that read it.
  \<^item> The iteration order of a Python \<^verbatim>\<open>set\<close> is not specified; it is the parameter
    \<open>set_order\<close> of \<open>check_mismatched_files\<close>.
\<close>

subsection \<open>Exceptions and dictionaries\<close>

datatype py_error = IOError | ValueError | KeyError | RecursionError

type_synonym bytes = "char list"

type_synonym entry = "string \<rightharpoonup> string"

type_synonym inventory = "string \<rightharpoonup> entry list"

type_synonym checksum_dict = "(string \<times> string) list"

text \<open>\<^verbatim>\<open>m[k]\<close> on a dictionary given as a partial map.\<close>

definition subscript :: "('k \<rightharpoonup> 'v) \<Rightarrow> 'k \<Rightarrow> py_error + 'v" where
  "subscript m k = (case m k of None \<Rightarrow> Inl KeyError | Some v \<Rightarrow> Inr v)"

text \<open>\<^verbatim>\<open>d[k]\<close>, \<^verbatim>\<open>k in d\<close>, \<^verbatim>\<open>d.keys()\<close> and \<^verbatim>\<open>d[k] = v\<close> on an
  insertion-ordered dictionary.\<close>

definition dict_getitem :: "('k \<times> 'v) list \<Rightarrow> 'k \<Rightarrow> py_error + 'v" where
  "dict_getitem d k = subscript (map_of d) k"

definition dict_contains :: "('k \<times> 'v) list \<Rightarrow> 'k \<Rightarrow> bool" where
  "dict_contains d k = (k \<in> set (map fst d))"

definition dict_keys :: "('k \<times> 'v) list \<Rightarrow> 'k list" where
  "dict_keys d = map fst d"

definition dict_setitem :: "'k \<Rightarrow> 'v \<Rightarrow> ('k \<times> 'v) list \<Rightarrow> ('k \<times> 'v) list" where
  "dict_setitem k v d = AList.update k v d"

subsection \<open>The environment\<close>

record world =
  path_join :: "string \<Rightarrow> string \<Rightarrow> string"
  abspath :: "string \<Rightarrow> string"
  open_file :: "string \<Rightarrow> py_error + bytes"
  json_load :: "bytes \<Rightarrow> py_error + inventory"
  calculate_tree_hash :: "bytes \<Rightarrow> string"
  strftime_now :: "nat \<Rightarrow> string"

text \<open>
  \<open>open_file w p\<close> is what opening the path \<open>p\<close> and reading it gives: the content, or
  the exception raised. \<open>json_load w\<close> parses a content, or raises.
  \<open>strftime_now w t\<close> is \<^verbatim>\<open>datetime.now().strftime('%Y-%m-%d %H:%M:%S')\<close> at tick
  \<open>t\<close>.
\<close>

subsection \<open>\<^verbatim>\<open>load_inventory\<close>\<close>

definition empty_inventory :: inventory where
  "empty_inventory = [''ArchiveList'' \<mapsto> []]"



subsection \<open>\<^verbatim>\<open>dictify_inventory\<close>\<close>

text \<open>
  The dictionary comprehension, one entry at a time: the key expression
  \<^verbatim>\<open>entry['ArchiveDescription']\<close>, the value expression
  \<^verbatim>\<open>entry['SHA256TreeHash']\<close>, then the store into the dictionary built so far.
\<close>

fun dictify_entries :: "entry list \<Rightarrow> checksum_dict \<Rightarrow> py_error + checksum_dict" where
  "dictify_entries [] d = Inr d"
| "dictify_entries (e # es) d =
     (case subscript e ''ArchiveDescription'' of
        Inl err \<Rightarrow> Inl err
      | Inr k \<Rightarrow>
          (case subscript e ''SHA256TreeHash'' of
             Inl err \<Rightarrow> Inl err
           | Inr v \<Rightarrow> dictify_entries es (dict_setitem k v d)))"

definition dictify_inventory :: "inventory \<Rightarrow> py_error + checksum_dict" where
  "dictify_inventory inventory =
     (case subscript inventory ''ArchiveList'' of
        Inl err \<Rightarrow> Inl err
      | Inr archive_list \<Rightarrow> dictify_entries archive_list [])"

subsection \<open>\<^verbatim>\<open>update_local_inventory\<close>\<close>

definition archive_record :: "string \<Rightarrow> string \<Rightarrow> string \<Rightarrow> entry" where
  "archive_record f created checksum =
     [''ArchiveDescription'' \<mapsto> f, ''CreationDate'' \<mapsto> created, ''SHA256TreeHash'' \<mapsto> checksum]"




subsection \<open>\<^verbatim>\<open>check_missing_files\<close> and \<^verbatim>\<open>check_mismatched_files\<close>\<close>

definition check_missing_files :: "inventory \<Rightarrow> inventory \<Rightarrow> py_error + string list" where
  "check_missing_files from_inventory against_inventory =
     (case dictify_inventory from_inventory of
        Inl err \<Rightarrow> Inl err
      | Inr from_inventory_dict \<Rightarrow>
          (case dictify_inventory against_inventory of
             Inl err \<Rightarrow> Inl err
           | Inr against_inventory_dict \<Rightarrow>
               Inr (filter (\<lambda>k. \<not> dict_contains from_inventory_dict k)
                      (dict_keys against_inventory_dict))))"

text \<open>
  \<^verbatim>\<open>a.keys() & b.keys()\<close>: the set of the keys of both, iterated in the order
  \<open>set_order\<close> gives to its elements.
\<close>

definition keys_and ::
  "(string list \<Rightarrow> string list) \<Rightarrow> checksum_dict \<Rightarrow> checksum_dict \<Rightarrow> string list" where
  "keys_and set_order a b = set_order (filter (dict_contains b) (dict_keys a))"

text \<open>The list comprehension over the intersection; each subscript may raise.\<close>

fun mismatched_loop :: "checksum_dict \<Rightarrow> checksum_dict \<Rightarrow> string list \<Rightarrow> py_error + string list" where
  "mismatched_loop l r [] = Inr []"
| "mismatched_loop l r (k # ks) =
     (case dict_getitem l k of
        Inl err \<Rightarrow> Inl err
      | Inr a \<Rightarrow>
          (case dict_getitem r k of
             Inl err \<Rightarrow> Inl err
           | Inr b \<Rightarrow>
               (case mismatched_loop l r ks of
                  Inl err \<Rightarrow> Inl err
                | Inr res \<Rightarrow> Inr (if a \<noteq> b then k # res else res))))"

definition check_mismatched_files ::
  "(string list \<Rightarrow> string list) \<Rightarrow> inventory \<Rightarrow> inventory \<Rightarrow> py_error + string list" where
  "check_mismatched_files set_order local_inventory remote_inventory =
     (case dictify_inventory local_inventory of
        Inl err \<Rightarrow> Inl err
      | Inr local_inventory_dict \<Rightarrow>
          (case dictify_inventory remote_inventory of
             Inl err \<Rightarrow> Inl err
           | Inr remote_inventory_dict \<Rightarrow>
               mismatched_loop local_inventory_dict remote_inventory_dict
                 (keys_and set_order local_inventory_dict remote_inventory_dict)))"

text \<open>
  What is assumed of the iteration order of a set: every element once.
\<close>

definition set_iteration :: "(string list \<Rightarrow> string list) \<Rightarrow> bool" where
  "set_iteration set_order \<longleftrightarrow>
     (\<forall>xs. distinct xs \<longrightarrow> set (set_order xs) = set xs \<and> distinct (set_order xs))"

subsection \<open>\<^verbatim>\<open>generate_check_receipt\<close>\<close>

datatype receipt_value = Text string | Names "string list"

type_synonym check_receipt = "(string \<times> receipt_value) list"

definition generate_check_receipt ::
  "world \<Rightarrow> nat \<Rightarrow> string \<Rightarrow> string list \<Rightarrow> string list \<Rightarrow> string list
     \<Rightarrow> check_receipt \<times> nat" where
  "generate_check_receipt w t local_dir missing_local_files missing_remote_files mismatched_files =
     ([(''local_dir'', Text (abspath w local_dir)),
       (''missing_local_files'', Names missing_local_files),
       (''missing_remote_files'', Names missing_remote_files),
       (''mismatched_files'', Names mismatched_files),
       (''timestamp'', Text (strftime_now w t))],
      Suc t)"

subsection \<open>Concrete inputs\<close>

text \<open>
  A directory \<^verbatim>\<open>archive\<close> in which only \<^verbatim>\<open>b.txt\<close> and the remote inventory can
  be read, a parser that accepts only the content of the remote inventory, and a clock
  that advances one second per tick.
\<close>

definition local_example :: inventory where
  "local_example =
     [''ArchiveList'' \<mapsto>
        [archive_record ''a.txt'' ''2024-04-30 09:00:00'' ''H1'',
         archive_record ''b.txt'' ''2024-04-30 09:00:01'' ''H2'']]"

definition remote_example :: inventory where
  "remote_example =
     [''ArchiveList'' \<mapsto>
        [archive_record ''a.txt'' ''2024-01-01 00:00:00'' ''H1'',
         archive_record ''c.txt'' ''2024-01-02 00:00:00'' ''H3'']]"

definition changed_example :: inventory where
  "changed_example =
     [''ArchiveList'' \<mapsto>
        [archive_record ''a.txt'' ''2024-01-01 00:00:00'' ''H9'',
         archive_record ''b.txt'' ''2024-01-02 00:00:00'' ''H2'']]"


definition duplicate_example :: inventory where
  "duplicate_example =
     [''ArchiveList'' \<mapsto>
        [archive_record ''b.txt'' ''2024-01-01 00:00:00'' ''H2'',
         archive_record ''a.txt'' ''2024-01-02 00:00:00'' ''H0'',
         archive_record ''a.txt'' ''2024-01-03 00:00:00'' ''H1'']]"

definition malformed_example :: inventory where
  "malformed_example =
     [''ArchiveList'' \<mapsto>
        [archive_record ''a.txt'' ''2024-01-01 00:00:00'' ''H1'',
         [''ArchiveDescription'' \<mapsto> ''b.txt'', ''CreationDate'' \<mapsto> ''2024-01-02 00:00:00'']]]"

definition example_world :: world where
  "example_world =
     \<lparr>path_join = (\<lambda>d f. d @ ''/'' @ f),
      abspath = (\<lambda>p. ''/home/user/'' @ p),
      open_file = (\<lambda>p. if p = ''archive/b.txt'' then Inr ''content of b''
                        else if p = ''archive/remote-inventory.json'' then Inr ''remote json''
                        else if p = ''archive/local-inventory.json'' then Inr ''not json''
                        else Inl IOError),
      json_load = (\<lambda>c. if c = ''remote json'' then Inr remote_example else Inl ValueError),
      calculate_tree_hash = (\<lambda>c. if c = ''content of b'' then ''H2'' else ''H0''),
      strftime_now = (\<lambda>t. if t = 0 then ''2024-05-01 10:00:00''
                           else if t = 1 then ''2024-05-01 10:00:01''
                           else ''2024-05-01 10:00:02'')\<rparr>"

section \<open>Properties\<close>

subsection \<open>Subscripts and the projection\<close>

lemma subscript_Inr: "subscript m k = Inr v \<longleftrightarrow> m k = Some v"
  by (simp add: subscript_def split: option.splits)

lemma subscript_Inl: "subscript m k = Inl err \<longleftrightarrow> m k = None \<and> err = KeyError"
  by (auto simp: subscript_def split: option.splits)

lemma dict_getitem_Inr: "dict_getitem d k = Inr v \<longleftrightarrow> map_of d k = Some v"
  by (simp add: dict_getitem_def subscript_Inr)


lemma dictify_entries_error: "dictify_entries es d = Inl err \<Longrightarrow> err = KeyError"
  by (induction es arbitrary: d) (auto simp: subscript_Inl split: sum.splits)

lemma dictify_entries_fail:
  "e \<in> set es \<Longrightarrow> e ''ArchiveDescription'' = None \<or> e ''SHA256TreeHash'' = None
     \<Longrightarrow> dictify_entries es d = Inl KeyError"
proof (induction es arbitrary: d)
  case Nil
  then show ?case by simp
next
  case (Cons x xs)
  show ?case
  proof (cases "dictify_entries (x # xs) d")
    case (Inl err)
    then show ?thesis using dictify_entries_error by blast
  next
    case (Inr d')
    then obtain k v where kv: "x ''ArchiveDescription'' = Some k" "x ''SHA256TreeHash'' = Some v"
      and rest: "dictify_entries xs (dict_setitem k v d) = Inr d'"
      by (auto simp: subscript_Inr split: sum.splits)
    from Cons.prems kv have "e \<in> set xs" by auto
    from Cons.IH [OF this Cons.prems(2)] rest show ?thesis by simp
  qed
qed

lemma dictify_entries_ok:
  "\<forall>e\<in>set es. e ''ArchiveDescription'' \<noteq> None \<and> e ''SHA256TreeHash'' \<noteq> None
     \<Longrightarrow> \<exists>d'. dictify_entries es d = Inr d'"
  by (induction es arbitrary: d) (auto simp: subscript_def)

lemma dictify_entries_distinct:
  "dictify_entries es d = Inr d' \<Longrightarrow> distinct (map fst d) \<Longrightarrow> distinct (map fst d')"
  by (induction es arbitrary: d)
     (auto simp: dict_setitem_def distinct_update split: sum.splits)

lemma dictify_entries_lookup:
  "dictify_entries es d = Inr d' \<Longrightarrow>
   map_of d' n =
     (case filter (\<lambda>e. e ''ArchiveDescription'' = Some n) es of
        [] \<Rightarrow> map_of d n
      | x # xs \<Rightarrow> (last (x # xs)) ''SHA256TreeHash'')"
proof (induction es arbitrary: d)
  case Nil
  then show ?case by simp
next
  case (Cons e es)
  from Cons.prems obtain k v where kv: "e ''ArchiveDescription'' = Some k" "e ''SHA256TreeHash'' = Some v"
    and rest: "dictify_entries es (dict_setitem k v d) = Inr d'"
    by (auto simp: subscript_Inr split: sum.splits)
  note IH = Cons.IH [OF rest]
  show ?case
  proof (cases "k = n")
    case True
    with IH kv show ?thesis
      by (auto simp: dict_setitem_def update_conv' split: list.splits)
  next
    case False
    with IH kv show ?thesis
      by (auto simp: dict_setitem_def update_conv' split: list.splits)
  qed
qed

lemma dictify_inventory_error: "dictify_inventory iv = Inl err \<Longrightarrow> err = KeyError"
  by (auto simp: dictify_inventory_def subscript_Inl dest: dictify_entries_error split: sum.splits)

lemma dictify_inventory_distinct: "dictify_inventory iv = Inr d \<Longrightarrow> distinct (map fst d)"
  by (auto simp: dictify_inventory_def dest: dictify_entries_distinct split: sum.splits)

lemma mismatched_loop_ok:
  "\<forall>k\<in>set ks. map_of l k \<noteq> None \<and> map_of r k \<noteq> None
     \<Longrightarrow> mismatched_loop l r ks = Inr (filter (\<lambda>k. map_of l k \<noteq> map_of r k) ks)"
  by (induction ks) (auto simp: dict_getitem_def subscript_def)

lemma keys_and_set:
  assumes "set_iteration set_order" and "distinct (map fst l)"
  shows "set (keys_and set_order l r) = set (dict_keys l) \<inter> set (dict_keys r)"
    and "distinct (keys_and set_order l r)"
proof -
  let ?xs = "filter (dict_contains r) (dict_keys l)"
  from assms(2) have "distinct ?xs" by (simp add: dict_keys_def)
  with assms(1) have *: "set (set_order ?xs) = set ?xs \<and> distinct (set_order ?xs)"
    unfolding set_iteration_def by blast
  from * show "set (keys_and set_order l r) = set (dict_keys l) \<inter> set (dict_keys r)"
    by (auto simp: keys_and_def dict_contains_def dict_keys_def)
  from * show "distinct (keys_and set_order l r)"
    by (simp add: keys_and_def)
qed

lemma check_mismatched_files_eq:
  assumes ord: "set_iteration set_order"
    and l: "dictify_inventory local_inventory = Inr l"
    and r: "dictify_inventory remote_inventory = Inr r"
  shows "check_mismatched_files set_order local_inventory remote_inventory =
           Inr (filter (\<lambda>k. map_of l k \<noteq> map_of r k) (keys_and set_order l r))"
proof -
  have dl: "distinct (map fst l)" using l by (rule dictify_inventory_distinct)
  have "\<forall>k\<in>set (keys_and set_order l r). map_of l k \<noteq> None \<and> map_of r k \<noteq> None"
    using keys_and_set(1) [OF ord dl, of r]
    by (auto simp: dict_keys_def map_of_eq_None_iff)
  from mismatched_loop_ok [OF this] l r show ?thesis
    by (simp add: check_mismatched_files_def)
qed

lemma check_missing_files_eq:
  assumes "dictify_inventory from_inventory = Inr f"
    and "dictify_inventory against_inventory = Inr a"
  shows "check_missing_files from_inventory against_inventory =
           Inr (filter (\<lambda>k. k \<notin> set (dict_keys f)) (dict_keys a))"
  using assms by (simp add: check_missing_files_def dict_contains_def dict_keys_def)

lemma no_records_dict: "iv ''ArchiveList'' = Some [] \<Longrightarrow> dictify_inventory iv = Inr []"
  by (simp add: dictify_inventory_def subscript_def)

lemma set_iteration_id: "set_iteration (\<lambda>xs. xs)"
  by (simp add: set_iteration_def)

lemma set_iteration_rev: "set_iteration rev"
  by (simp add: set_iteration_def)




subsection \<open>The concrete inputs, evaluated\<close>

lemmas example_defs =
  local_example_def remote_example_def changed_example_def duplicate_example_def
  malformed_example_def archive_record_def dictify_inventory_def subscript_def
  dict_setitem_def

lemma local_example_dict:
  "dictify_inventory local_example = Inr [(''a.txt'', ''H1''), (''b.txt'', ''H2'')]"
  by (simp add: example_defs)

lemma remote_example_dict:
  "dictify_inventory remote_example = Inr [(''a.txt'', ''H1''), (''c.txt'', ''H3'')]"
  by (simp add: example_defs)

lemma changed_example_dict:
  "dictify_inventory changed_example = Inr [(''a.txt'', ''H9''), (''b.txt'', ''H2'')]"
  by (simp add: example_defs)

lemma duplicate_example_dict:
  "dictify_inventory duplicate_example = Inr [(''b.txt'', ''H2''), (''a.txt'', ''H1'')]"
  by (simp add: example_defs)

lemma malformed_example_dict:
  "dictify_inventory malformed_example = Inl KeyError"
  by (simp add: example_defs)


subsection \<open>The incremental update\<close>



subsection \<open>Missing files\<close>

text \<open>
  Claim C2. For two inventories that project to the dictionaries \<open>f\<close> (from) and \<open>a\<close>
  (against), \<open>check_missing_files\<close> returns, in both directions; the names it returns
  are exactly the keys of \<open>a\<close> that are not keys of \<open>f\<close>, each once; the result is empty
  if and only if every key of \<open>a\<close> is a key of \<open>f\<close>; and swapping the arguments gives
  the same result only when both projections have the same keys.
\<close>

theorem check_missing_files_spec:
  assumes f: "dictify_inventory from_inventory = Inr f"
    and a: "dictify_inventory against_inventory = Inr a"
  shows "\<exists>res res'.
           check_missing_files from_inventory against_inventory = Inr res
         \<and> check_missing_files against_inventory from_inventory = Inr res'
         \<and> set res = set (dict_keys a) - set (dict_keys f)
         \<and> distinct res
         \<and> (res = [] \<longleftrightarrow> set (dict_keys a) \<subseteq> set (dict_keys f))
         \<and> (res = res' \<longleftrightarrow> set (dict_keys a) = set (dict_keys f))"
proof -
  let ?res = "filter (\<lambda>k. k \<notin> set (dict_keys f)) (dict_keys a)"
  let ?res' = "filter (\<lambda>k. k \<notin> set (dict_keys a)) (dict_keys f)"
  have r1: "check_missing_files from_inventory against_inventory = Inr ?res"
    using f a by (rule check_missing_files_eq)
  have r2: "check_missing_files against_inventory from_inventory = Inr ?res'"
    using a f by (rule check_missing_files_eq)
  have s1: "set ?res = set (dict_keys a) - set (dict_keys f)" by auto
  have s2: "set ?res' = set (dict_keys f) - set (dict_keys a)" by auto
  have dr: "distinct ?res"
    using dictify_inventory_distinct [OF a] by (simp add: dict_keys_def)
  have em: "?res = [] \<longleftrightarrow> set (dict_keys a) \<subseteq> set (dict_keys f)"
    by (auto simp: filter_empty_conv)
  have sw: "?res = ?res' \<longleftrightarrow> set (dict_keys a) = set (dict_keys f)"
  proof
    assume eq: "?res = ?res'"
    then have "set ?res = set ?res'" by simp
    with s1 s2 show "set (dict_keys a) = set (dict_keys f)" by blast
  next
    assume "set (dict_keys a) = set (dict_keys f)"
    then show "?res = ?res'" by (simp add: filter_empty_conv [THEN iffD2])
  qed
  from r1 r2 s1 dr em sw show ?thesis by blast
qed

theorem check_missing_files_spec_witness:
  "dictify_inventory local_example = Inr [(''a.txt'', ''H1''), (''b.txt'', ''H2'')]
   \<and> dictify_inventory remote_example = Inr [(''a.txt'', ''H1''), (''c.txt'', ''H3'')]
   \<and> (\<exists>res res'.
         check_missing_files local_example remote_example = Inr res
       \<and> check_missing_files remote_example local_example = Inr res'
       \<and> set res = {''c.txt''} \<and> distinct res \<and> res \<noteq> [] \<and> res \<noteq> res')"
proof -
  have ne: "{''a.txt'', ''c.txt''} \<noteq> {''a.txt'', ''b.txt''}"
    by (simp add: doubleton_eq_iff)
  show ?thesis
    using check_missing_files_spec [OF local_example_dict remote_example_dict]
      local_example_dict remote_example_dict ne
    by (simp add: dict_keys_def)
qed

subsection \<open>Mismatched files\<close>

text \<open>
  Claim C3. For two inventories that project to \<open>l\<close> and \<open>r\<close>, and any iteration order
  of the intersection, \<open>check_mismatched_files\<close> returns, and the names it returns are
  exactly those that are keys of both dictionaries with different checksum strings; a
  name that is not a key of both is never returned, and neither is a name whose two
  lookups agree.
\<close>

theorem check_mismatched_files_spec:
  assumes ord: "set_iteration set_order"
    and l: "dictify_inventory local_inventory = Inr l"
    and r: "dictify_inventory remote_inventory = Inr r"
  shows "\<exists>res.
           check_mismatched_files set_order local_inventory remote_inventory = Inr res
         \<and> set res = {k. \<exists>a b. dict_getitem l k = Inr a \<and> dict_getitem r k = Inr b \<and> a \<noteq> b}
         \<and> set res \<subseteq> set (dict_keys l) \<inter> set (dict_keys r)
         \<and> (\<forall>k. dict_getitem l k = dict_getitem r k \<longrightarrow> k \<notin> set res)"
proof -
  let ?res = "filter (\<lambda>k. map_of l k \<noteq> map_of r k) (keys_and set_order l r)"
  have dl: "distinct (map fst l)" using l by (rule dictify_inventory_distinct)
  have ks: "set (keys_and set_order l r) = set (dict_keys l) \<inter> set (dict_keys r)"
    using ord dl by (rule keys_and_set(1))
  have run: "check_mismatched_files set_order local_inventory remote_inventory = Inr ?res"
    using ord l r by (rule check_mismatched_files_eq)
  have dom: "k \<in> set (dict_keys d) \<longleftrightarrow> (\<exists>v. map_of d k = Some v)" for k and d :: checksum_dict
    by (simp add: dict_keys_def dom_map_of_conv_image_fst [symmetric] dom_def)
  have exact: "set ?res = {k. \<exists>a b. dict_getitem l k = Inr a \<and> dict_getitem r k = Inr b \<and> a \<noteq> b}"
    unfolding dict_getitem_Inr set_filter ks using dom [of _ l] dom [of _ r] by auto
  have both: "set ?res \<subseteq> set (dict_keys l) \<inter> set (dict_keys r)"
    using ks by auto
  have same: "\<forall>k. dict_getitem l k = dict_getitem r k \<longrightarrow> k \<notin> set ?res"
    by (auto simp: dict_getitem_def subscript_def split: option.splits)
  from run exact both same show ?thesis by blast
qed

theorem check_mismatched_files_spec_witness:
  "set_iteration rev
   \<and> dictify_inventory local_example = Inr [(''a.txt'', ''H1''), (''b.txt'', ''H2'')]
   \<and> dictify_inventory changed_example = Inr [(''a.txt'', ''H9''), (''b.txt'', ''H2'')]
   \<and> (\<exists>res. check_mismatched_files rev local_example changed_example = Inr res
          \<and> ''a.txt'' \<in> set res \<and> ''b.txt'' \<notin> set res \<and> ''c.txt'' \<notin> set res)"
proof -
  from check_mismatched_files_spec [OF set_iteration_rev local_example_dict changed_example_dict]
  obtain res where run: "check_mismatched_files rev local_example changed_example = Inr res"
    and exact: "set res = {k. \<exists>a b. dict_getitem [(''a.txt'', ''H1''), (''b.txt'', ''H2'')] k = Inr a
                    \<and> dict_getitem [(''a.txt'', ''H9''), (''b.txt'', ''H2'')] k = Inr b \<and> a \<noteq> b}"
    by blast
  have a: "''a.txt'' \<in> set res" unfolding exact by (simp add: dict_getitem_Inr)
  have b: "''b.txt'' \<notin> set res" unfolding exact by (simp add: dict_getitem_Inr)
  have c: "''c.txt'' \<notin> set res" unfolding exact by (simp add: dict_getitem_Inr)
  from run a b c set_iteration_rev local_example_dict changed_example_dict show ?thesis by blast
qed

subsection \<open>The receipt\<close>

text \<open>
  Claim C4, as the code has it. The receipt has exactly the keys \<^verbatim>\<open>local_dir\<close>,
  \<^verbatim>\<open>missing_local_files\<close>, \<^verbatim>\<open>missing_remote_files\<close>, \<^verbatim>\<open>mismatched_files\<close> and
  \<^verbatim>\<open>timestamp\<close>, in this order; \<^verbatim>\<open>local_dir\<close> holds \<^verbatim>\<open>os.path.abspath\<close> of the
  directory, the three lists are the arguments unchanged, and \<^verbatim>\<open>timestamp\<close> holds the
  clock reading of the current tick, which is advanced.
\<close>

theorem generate_check_receipt_fields:
  "dict_keys (fst (generate_check_receipt w t local_dir missing_local_files missing_remote_files
       mismatched_files))
     = [''local_dir'', ''missing_local_files'', ''missing_remote_files'', ''mismatched_files'',
        ''timestamp'']
   \<and> dict_getitem (fst (generate_check_receipt w t local_dir missing_local_files
         missing_remote_files mismatched_files)) ''local_dir'' = Inr (Text (abspath w local_dir))
   \<and> dict_getitem (fst (generate_check_receipt w t local_dir missing_local_files
         missing_remote_files mismatched_files)) ''missing_local_files''
         = Inr (Names missing_local_files)
   \<and> dict_getitem (fst (generate_check_receipt w t local_dir missing_local_files
         missing_remote_files mismatched_files)) ''missing_remote_files''
         = Inr (Names missing_remote_files)
   \<and> dict_getitem (fst (generate_check_receipt w t local_dir missing_local_files
         missing_remote_files mismatched_files)) ''mismatched_files''
         = Inr (Names mismatched_files)
   \<and> dict_getitem (fst (generate_check_receipt w t local_dir missing_local_files
         missing_remote_files mismatched_files)) ''timestamp'' = Inr (Text (strftime_now w t))
   \<and> snd (generate_check_receipt w t local_dir missing_local_files missing_remote_files
         mismatched_files) = Suc t"
  by (simp add: generate_check_receipt_def dict_getitem_def subscript_def dict_keys_def)

text \<open>
  The receipt of a run on the directory \<^verbatim>\<open>archive\<close> has no key \<^verbatim>\<open>directory\<close>: the
  absolute path is stored under \<^verbatim>\<open>local_dir\<close>, and the list of keys is not the list
  \<^verbatim>\<open>directory\<close>, \<^verbatim>\<open>missing_local\<close>, \<^verbatim>\<open>missing_remote\<close>, \<^verbatim>\<open>mismatched\<close>,
  \<^verbatim>\<open>timestamp\<close>.
\<close>

theorem generate_check_receipt_directory_counterexample:
  "dict_getitem (fst (generate_check_receipt example_world 0 ''archive'' [''c.txt''] [''b.txt''] []))
     ''directory'' = Inl KeyError
   \<and> dict_getitem (fst (generate_check_receipt example_world 0 ''archive'' [''c.txt''] [''b.txt''] []))
     ''local_dir'' = Inr (Text ''/home/user/archive'')
   \<and> dict_keys (fst (generate_check_receipt example_world 0 ''archive'' [''c.txt''] [''b.txt''] []))
     \<noteq> [''directory'', ''missing_local'', ''missing_remote'', ''mismatched'', ''timestamp'']"
  by (simp add: generate_check_receipt_def dict_getitem_def subscript_def dict_keys_def
        example_world_def)

subsection \<open>Repeated names\<close>

text \<open>
  Claim C5. In an inventory whose records all have a name and a checksum, a name that
  occurs in the archive list (once or several times) is mapped by the projection to the
  checksum of the last record of that name in list order; the projection returns a
  dictionary, whatever names are repeated.
\<close>

theorem dictify_inventory_last_wins:
  assumes al: "iv ''ArchiveList'' = Some es"
    and wf: "\<forall>e\<in>set es. e ''ArchiveDescription'' \<noteq> None \<and> e ''SHA256TreeHash'' \<noteq> None"
    and e: "e \<in> set es" and n: "e ''ArchiveDescription'' = Some n"
  shows "\<exists>d c. dictify_inventory iv = Inr d
           \<and> last (filter (\<lambda>e. e ''ArchiveDescription'' = Some n) es) ''SHA256TreeHash'' = Some c
           \<and> dict_getitem d n = Inr c"
proof -
  let ?same = "filter (\<lambda>e. e ''ArchiveDescription'' = Some n) es"
  from dictify_entries_ok [OF wf] obtain d where d: "dictify_entries es [] = Inr d" by blast
  then have run: "dictify_inventory iv = Inr d"
    using al by (simp add: dictify_inventory_def subscript_def)
  from e n have ne: "?same \<noteq> []" by (auto simp: filter_empty_conv)
  then have "last ?same \<in> set ?same" by (rule last_in_set)
  then have "last ?same \<in> set es" by simp
  with wf obtain c where c: "last ?same ''SHA256TreeHash'' = Some c" by blast
  from dictify_entries_lookup [OF d, of n] ne have "map_of d n = last ?same ''SHA256TreeHash''"
    by (cases ?same) simp_all
  with c have "dict_getitem d n = Inr c" by (simp add: dict_getitem_Inr)
  with run c show ?thesis by blast
qed

theorem dictify_inventory_last_wins_witness:
  "duplicate_example ''ArchiveList'' =
     Some [archive_record ''b.txt'' ''2024-01-01 00:00:00'' ''H2'',
           archive_record ''a.txt'' ''2024-01-02 00:00:00'' ''H0'',
           archive_record ''a.txt'' ''2024-01-03 00:00:00'' ''H1'']
   \<and> archive_record ''a.txt'' ''2024-01-02 00:00:00'' ''H0'' ''ArchiveDescription'' = Some ''a.txt''
   \<and> archive_record ''a.txt'' ''2024-01-03 00:00:00'' ''H1'' ''ArchiveDescription'' = Some ''a.txt''
   \<and> (\<exists>d. dictify_inventory duplicate_example = Inr d \<and> dict_getitem d ''a.txt'' = Inr ''H1'')"
proof -
  let ?es = "[archive_record ''b.txt'' ''2024-01-01 00:00:00'' ''H2'',
              archive_record ''a.txt'' ''2024-01-02 00:00:00'' ''H0'',
              archive_record ''a.txt'' ''2024-01-03 00:00:00'' ''H1'']"
  have al: "duplicate_example ''ArchiveList'' = Some ?es"
    by (simp add: duplicate_example_def)
  have wf: "\<forall>e\<in>set ?es. e ''ArchiveDescription'' \<noteq> None \<and> e ''SHA256TreeHash'' \<noteq> None"
    by (simp add: archive_record_def)
  have e: "archive_record ''a.txt'' ''2024-01-02 00:00:00'' ''H0'' \<in> set ?es" by simp
  have n: "archive_record ''a.txt'' ''2024-01-02 00:00:00'' ''H0'' ''ArchiveDescription'' = Some ''a.txt''"
    by (simp add: archive_record_def)
  have n': "archive_record ''a.txt'' ''2024-01-03 00:00:00'' ''H1'' ''ArchiveDescription'' = Some ''a.txt''"
    by (simp add: archive_record_def)
  from dictify_inventory_last_wins
         [where iv = duplicate_example
            and e = "archive_record ''a.txt'' ''2024-01-02 00:00:00'' ''H0''", OF al wf e n]
  obtain d c where run: "dictify_inventory duplicate_example = Inr d"
    and c: "last (filter (\<lambda>e. e ''ArchiveDescription'' = Some ''a.txt'') ?es) ''SHA256TreeHash'' = Some c"
    and get: "dict_getitem d ''a.txt'' = Inr c"
    by blast
  from c have "c = ''H1''" by (simp add: archive_record_def)
  with run get al n n' show ?thesis by blast
qed

subsection \<open>Loading an inventory\<close>



subsection \<open>Malformed records\<close>

text \<open>
  Claim C7. If a record of an inventory lacks the key \<^verbatim>\<open>ArchiveDescription\<close> or the key
  \<^verbatim>\<open>SHA256TreeHash\<close>, then \<open>dictify_inventory\<close> raises \<^verbatim>\<open>KeyError\<close>, and so do
  \<open>check_missing_files\<close> and \<open>check_mismatched_files\<close> with that inventory as either
  argument, whatever the other inventory is.
\<close>

theorem malformed_record_fatal:
  assumes al: "iv ''ArchiveList'' = Some es"
    and e: "e \<in> set es"
    and bad: "e ''ArchiveDescription'' = None \<or> e ''SHA256TreeHash'' = None"
  shows "dictify_inventory iv = Inl KeyError
       \<and> check_missing_files iv other = Inl KeyError
       \<and> check_missing_files other iv = Inl KeyError
       \<and> check_mismatched_files set_order iv other = Inl KeyError
       \<and> check_mismatched_files set_order other iv = Inl KeyError"
proof -
  have p: "dictify_inventory iv = Inl KeyError"
    using al dictify_entries_fail [OF e bad] by (simp add: dictify_inventory_def subscript_def)
  have first: "check_missing_files iv other = Inl KeyError"
    using p by (simp add: check_missing_files_def)
  have first': "check_mismatched_files set_order iv other = Inl KeyError"
    using p by (simp add: check_mismatched_files_def)
  have second: "check_missing_files other iv = Inl KeyError"
  proof (cases "dictify_inventory other")
    case (Inl err)
    then have "err = KeyError" by (rule dictify_inventory_error)
    with Inl show ?thesis by (simp add: check_missing_files_def)
  next
    case (Inr d)
    with p show ?thesis by (simp add: check_missing_files_def)
  qed
  have second': "check_mismatched_files set_order other iv = Inl KeyError"
  proof (cases "dictify_inventory other")
    case (Inl err)
    then have "err = KeyError" by (rule dictify_inventory_error)
    with Inl show ?thesis by (simp add: check_mismatched_files_def)
  next
    case (Inr d)
    with p show ?thesis by (simp add: check_mismatched_files_def)
  qed
  from p first second first' second' show ?thesis by simp
qed

theorem malformed_record_fatal_witness:
  "malformed_example ''ArchiveList'' =
     Some [archive_record ''a.txt'' ''2024-01-01 00:00:00'' ''H1'',
           [''ArchiveDescription'' \<mapsto> ''b.txt'', ''CreationDate'' \<mapsto> ''2024-01-02 00:00:00'']]
   \<and> [''ArchiveDescription'' \<mapsto> ''b.txt'', ''CreationDate'' \<mapsto> ''2024-01-02 00:00:00'']
         ''SHA256TreeHash'' = None
   \<and> dictify_inventory malformed_example = Inl KeyError
   \<and> check_missing_files malformed_example remote_example = Inl KeyError
   \<and> check_missing_files remote_example malformed_example = Inl KeyError
   \<and> check_mismatched_files rev malformed_example remote_example = Inl KeyError
   \<and> check_mismatched_files rev remote_example malformed_example = Inl KeyError"
proof -
  let ?bad = "[''ArchiveDescription'' \<mapsto> ''b.txt'', ''CreationDate'' \<mapsto> ''2024-01-02 00:00:00'']"
  let ?es = "[archive_record ''a.txt'' ''2024-01-01 00:00:00'' ''H1'', ?bad]"
  have al: "malformed_example ''ArchiveList'' = Some ?es"
    by (simp add: malformed_example_def)
  have e: "?bad \<in> set ?es" by simp
  have none: "?bad ''SHA256TreeHash'' = None" by simp
  then have bad: "?bad ''ArchiveDescription'' = None \<or> ?bad ''SHA256TreeHash'' = None" ..
  from malformed_record_fatal
         [where iv = malformed_example and e = "?bad" and other = remote_example
            and set_order = rev, OF al e bad] al none
  show ?thesis by simp
qed

subsection \<open>Clean and empty inventories, symmetry\<close>

text \<open>
  Claim C8. If two inventories project to dictionaries that are equal as mappings from
  names to checksums (whatever the order and the repetitions of their records), then the
  missing files in both directions and the mismatched files are the empty list; so
  are they for an inventory compared with itself.
\<close>

theorem identical_projections_clean:
  assumes ord: "set_iteration set_order"
    and l: "dictify_inventory local_inventory = Inr l"
    and r: "dictify_inventory remote_inventory = Inr r"
    and same: "map_of l = map_of r"
  shows "check_missing_files local_inventory remote_inventory = Inr []
       \<and> check_missing_files remote_inventory local_inventory = Inr []
       \<and> check_mismatched_files set_order local_inventory remote_inventory = Inr []
       \<and> check_missing_files local_inventory local_inventory = Inr []
       \<and> check_mismatched_files set_order local_inventory local_inventory = Inr []"
proof -
  have keys: "set (dict_keys l) = set (dict_keys r)"
  proof -
    have "dom (map_of l) = dom (map_of r)" using same by simp
    then show ?thesis by (simp add: dict_keys_def dom_map_of_conv_image_fst)
  qed
  have m1: "check_missing_files local_inventory remote_inventory = Inr []"
    using check_missing_files_eq [OF l r] keys by (simp add: filter_empty_conv [THEN iffD2])
  have m2: "check_missing_files remote_inventory local_inventory = Inr []"
    using check_missing_files_eq [OF r l] keys by (simp add: filter_empty_conv [THEN iffD2])
  have m3: "check_mismatched_files set_order local_inventory remote_inventory = Inr []"
    using check_mismatched_files_eq [OF ord l r] same by simp
  have m4: "check_missing_files local_inventory local_inventory = Inr []"
    using check_missing_files_eq [OF l l] by (simp add: filter_empty_conv [THEN iffD2])
  have m5: "check_mismatched_files set_order local_inventory local_inventory = Inr []"
    using check_mismatched_files_eq [OF ord l l] by simp
  from m1 m2 m3 m4 m5 show ?thesis by simp
qed

theorem identical_projections_clean_witness:
  "set_iteration rev
   \<and> dictify_inventory local_example = Inr [(''a.txt'', ''H1''), (''b.txt'', ''H2'')]
   \<and> dictify_inventory duplicate_example = Inr [(''b.txt'', ''H2''), (''a.txt'', ''H1'')]
   \<and> map_of [(''a.txt'', ''H1''), (''b.txt'', ''H2'')] = map_of [(''b.txt'', ''H2''), (''a.txt'', ''H1'')]
   \<and> check_missing_files local_example duplicate_example = Inr []
   \<and> check_missing_files duplicate_example local_example = Inr []
   \<and> check_mismatched_files rev local_example duplicate_example = Inr []
   \<and> check_missing_files local_example local_example = Inr []
   \<and> check_mismatched_files rev local_example local_example = Inr []"
proof -
  have same: "map_of [(''a.txt'', ''H1''), (''b.txt'', ''H2'')]
                = map_of [(''b.txt'', ''H2''), (''a.txt'', ''H1'')]"
    by (simp add: fun_eq_iff)
  from identical_projections_clean
         [OF set_iteration_rev local_example_dict duplicate_example_dict same]
    set_iteration_rev local_example_dict duplicate_example_dict same
  show ?thesis by simp
qed

text \<open>
  Claim C9. If the archive list of \<open>A\<close> is empty and \<open>B\<close> projects to \<open>b\<close>, then the files
  missing from \<open>A\<close> are all the keys of \<open>b\<close>, no file is missing from \<open>B\<close>, and no file
  is mismatched.
\<close>

theorem no_records_all_missing:
  assumes ord: "set_iteration set_order"
    and a: "A ''ArchiveList'' = Some []"
    and b: "dictify_inventory B = Inr b"
  shows "check_missing_files A B = Inr (dict_keys b)
       \<and> check_missing_files B A = Inr []
       \<and> check_mismatched_files set_order A B = Inr []"
proof -
  have da: "dictify_inventory A = Inr []" using a by (rule no_records_dict)
  have m1: "check_missing_files A B = Inr (dict_keys b)"
    using check_missing_files_eq [OF da b] by (simp add: dict_keys_def)
  have m2: "check_missing_files B A = Inr []"
    using check_missing_files_eq [OF b da] by (simp add: dict_keys_def)
  have "set (keys_and set_order [] b) = {}"
    using keys_and_set(1) [OF ord, of "[]" b] by (simp add: dict_keys_def)
  then have "keys_and set_order [] b = []" by simp
  then have m3: "check_mismatched_files set_order A B = Inr []"
    using check_mismatched_files_eq [OF ord da b] by simp
  from m1 m2 m3 show ?thesis by simp
qed

theorem no_records_all_missing_witness:
  "set_iteration rev
   \<and> empty_inventory ''ArchiveList'' = Some []
   \<and> dictify_inventory remote_example = Inr [(''a.txt'', ''H1''), (''c.txt'', ''H3'')]
   \<and> check_missing_files empty_inventory remote_example = Inr [''a.txt'', ''c.txt'']
   \<and> check_missing_files remote_example empty_inventory = Inr []
   \<and> check_mismatched_files rev empty_inventory remote_example = Inr []"
proof -
  have e: "empty_inventory ''ArchiveList'' = Some []" by (simp add: empty_inventory_def)
  from no_records_all_missing [where A = empty_inventory, OF set_iteration_rev e remote_example_dict]
    set_iteration_rev e remote_example_dict
  show ?thesis by (simp add: dict_keys_def)
qed

text \<open>
  Claim C10. For two inventories that project, \<open>check_mismatched_files\<close> returns the
  same set of names for both orders of its arguments, and neither list has a name twice.
\<close>

theorem check_mismatched_files_symmetric:
  assumes ord: "set_iteration set_order"
    and a: "dictify_inventory A = Inr a"
    and b: "dictify_inventory B = Inr b"
  shows "\<exists>res res'.
           check_mismatched_files set_order A B = Inr res
         \<and> check_mismatched_files set_order B A = Inr res'
         \<and> set res = set res' \<and> distinct res \<and> distinct res'"
proof -
  let ?res = "filter (\<lambda>k. map_of a k \<noteq> map_of b k) (keys_and set_order a b)"
  let ?res' = "filter (\<lambda>k. map_of b k \<noteq> map_of a k) (keys_and set_order b a)"
  have da: "distinct (map fst a)" using a by (rule dictify_inventory_distinct)
  have db: "distinct (map fst b)" using b by (rule dictify_inventory_distinct)
  have r1: "check_mismatched_files set_order A B = Inr ?res"
    using ord a b by (rule check_mismatched_files_eq)
  have r2: "check_mismatched_files set_order B A = Inr ?res'"
    using ord b a by (rule check_mismatched_files_eq)
  have "set (keys_and set_order a b) = set (keys_and set_order b a)"
    using keys_and_set(1) [OF ord da, of b] keys_and_set(1) [OF ord db, of a] by blast
  then have eq: "set ?res = set ?res'" by auto
  have d1: "distinct ?res" using keys_and_set(2) [OF ord da, of b] by simp
  have d2: "distinct ?res'" using keys_and_set(2) [OF ord db, of a] by simp
  from r1 r2 eq d1 d2 show ?thesis by blast
qed

theorem check_mismatched_files_symmetric_witness:
  "set_iteration (\<lambda>xs. xs)
   \<and> dictify_inventory changed_example = Inr [(''a.txt'', ''H9''), (''b.txt'', ''H2'')]
   \<and> dictify_inventory duplicate_example = Inr [(''b.txt'', ''H2''), (''a.txt'', ''H1'')]
   \<and> (\<exists>res res'.
         check_mismatched_files (\<lambda>xs. xs) changed_example duplicate_example = Inr res
       \<and> check_mismatched_files (\<lambda>xs. xs) duplicate_example changed_example = Inr res'
       \<and> set res = set res' \<and> distinct res \<and> distinct res')"
  using check_mismatched_files_symmetric
          [OF set_iteration_id changed_example_dict duplicate_example_dict]
    set_iteration_id changed_example_dict duplicate_example_dict
  by simp

end
